theory Spec2Isabelle
  imports Complex_Main "HOL-Library.Sublist" "HOL-Library.Log_Nat"
begin

section \<open>Common ground: JavaScript failures and the assertion switch\<close>

text \<open>
  The sources guard their preconditions with \<^verbatim>\<open>assert && assert( cond, msg )\<close>. The
  global \<^verbatim>\<open>assert\<close> is a function that throws when assertions are enabled and is
  null otherwise, in which case the check is skipped. Every modelled function that contains
  such a line takes the switch as its first argument \<open>ea\<close> (assertions enabled).

  Failures are values. \<open>AssertionError\<close> is the error thrown by a failed assertion,
  \<open>TypeError\<close> the one JavaScript throws when a property of \<^verbatim>\<open>undefined\<close> is read,
  and \<open>NotFinite\<close> marks a division by zero, where JavaScript continues with an infinity
  or NaN and the model over the rationals stops.

  Generation numbers are integers. The coordinates of the view transform are rationals
  and its arithmetic is exact; the numbers of the generation scroller are doubles and its
  arithmetic rounds. The assertions modelled are those written in the sources of this
  program; the argument checks that the libraries it uses (the Property classes, Range)
  make by assertion are not.
\<close>

datatype error = AssertionError | TypeError | NotFinite

definition js_assert :: "bool \<Rightarrow> bool \<Rightarrow> (error + unit)" where
  "js_assert ea cond = (if ea \<and> \<not> cond then Inl AssertionError else Inr ())"

definition bindE :: "(error + 'a) \<Rightarrow> ('a \<Rightarrow> error + 'b) \<Rightarrow> error + 'b" where
  "bindE m f = (case m of Inl e \<Rightarrow> Inl e | Inr v \<Rightarrow> f v)"

definition js_div :: "rat \<Rightarrow> rat \<Rightarrow> error + rat" where
  "js_div a b = (if b = 0 then Inl NotFinite else Inr (a / b))"

section \<open>EnvironmentModelViewTransform.js\<close>

record Dimension2 =
  width :: rat
  height :: rat

record Vector3 =
  x3 :: rat
  y3 :: rat
  z3 :: rat

record EnvironmentModelViewTransform =
  viewSize :: Dimension2
  yHorizonView :: rat
  zNearModel :: rat
  zFarModel :: rat
  riseModel :: rat
  xyScaleFactor :: rat

text \<open>The constructor; \<open>xyScaleFactor\<close> is computed from the other fields as in the source.\<close>

definition new_EnvironmentModelViewTransform :: EnvironmentModelViewTransform where
  "new_EnvironmentModelViewTransform =
     \<lparr> viewSize = \<lparr> width = 770, height = 310 \<rparr>,
       yHorizonView = 95,
       zNearModel = 150,
       zFarModel = 300,
       riseModel = 100,
       xyScaleFactor = 150 * (310 - 95) / 100 \<rparr>"

definition getGroundY :: "bool \<Rightarrow> EnvironmentModelViewTransform \<Rightarrow> rat \<Rightarrow> error + rat" where
  "getGroundY ea t zModel =
     bindE (js_assert ea (zModel \<ge> zNearModel t \<and> zModel \<le> zFarModel t)) (\<lambda>_.
     bindE (js_div (- (zFarModel t - zModel)) (zFarModel t - zNearModel t)) (\<lambda>scale.
     Inr (scale * riseModel t)))"

definition modelToViewX :: "bool \<Rightarrow> EnvironmentModelViewTransform \<Rightarrow> Vector3 \<Rightarrow> error + rat" where
  "modelToViewX ea t position =
     bindE (js_assert ea (z3 position \<noteq> 0)) (\<lambda>_.
     bindE (js_div (x3 position) (z3 position)) (\<lambda>q.
     Inr (width (viewSize t) / 2 + q * xyScaleFactor t)))"

definition modelToViewY :: "bool \<Rightarrow> EnvironmentModelViewTransform \<Rightarrow> Vector3 \<Rightarrow> error + rat" where
  "modelToViewY ea t position =
     bindE (js_assert ea (z3 position \<noteq> 0)) (\<lambda>_.
     bindE (js_div (y3 position) (z3 position)) (\<lambda>q.
     Inr (yHorizonView t - q * xyScaleFactor t)))"

definition viewToModelZ :: "bool \<Rightarrow> EnvironmentModelViewTransform \<Rightarrow> rat \<Rightarrow> error + rat" where
  "viewToModelZ ea t yView =
     bindE (js_assert ea (yView \<ge> yHorizonView t \<and> yView \<le> height (viewSize t))) (\<lambda>_.
     js_div (zNearModel t * zFarModel t * (yHorizonView t - height (viewSize t)))
            (zFarModel t * (yHorizonView t - yView) + zNearModel t * (yView - height (viewSize t))))"

definition viewToModelX :: "EnvironmentModelViewTransform \<Rightarrow> rat \<Rightarrow> rat \<Rightarrow> error + rat" where
  "viewToModelX t xView zModel =
     js_div (zModel * (xView - width (viewSize t) / 2)) (xyScaleFactor t)"

definition viewToModelGroundPosition ::
    "bool \<Rightarrow> EnvironmentModelViewTransform \<Rightarrow> rat \<Rightarrow> rat \<Rightarrow> error + Vector3" where
  "viewToModelGroundPosition ea t xView yView =
     bindE (js_assert ea (xView \<ge> 0 \<and> xView \<le> width (viewSize t))) (\<lambda>_.
     bindE (js_assert ea (yView \<ge> yHorizonView t \<and> yView \<le> height (viewSize t))) (\<lambda>_.
     bindE (viewToModelZ ea t yView) (\<lambda>zModel.
     bindE (viewToModelX t xView zModel) (\<lambda>xModel.
     bindE (getGroundY ea t zModel) (\<lambda>yModel.
     Inr \<lparr> x3 = xModel, y3 = yModel, z3 = zModel \<rparr>)))))"

text \<open>
  Projecting a ground position back to the view: the composition the round-trip property
  speaks about.
\<close>

definition groundRoundTrip ::
    "bool \<Rightarrow> EnvironmentModelViewTransform \<Rightarrow> rat \<Rightarrow> rat \<Rightarrow> error + (rat \<times> rat)" where
  "groundRoundTrip ea t xView yView =
     bindE (viewToModelGroundPosition ea t xView yView) (\<lambda>position.
     bindE (modelToViewX ea t position) (\<lambda>xBack.
     bindE (modelToViewY ea t position) (\<lambda>yBack.
     Inr (xBack, yBack))))"

section \<open>Double arithmetic\<close>

text \<open>
  A JavaScript number is a double. The model keeps a double as the rational it denotes and
  rounds the exact result of an addition or a subtraction to the nearest double, ties to
  the even significand, as IEEE 754 does. A double has a significand of 53 bits:
  \<open>ilog2 a\<close> is the exponent of \<open>a > 0\<close>, the integer \<open>e\<close> with
  \<open>2\<^sup>e \<le> a < 2\<^sup>e\<^sup>+\<^sup>1\<close>, and the doubles near \<open>a\<close> are the multiples of
  \<open>2\<^sup>e\<^sup>-\<^sup>5\<^sup>2\<close>. Overflow and subnormal numbers are left out: the generation ranges are
  far from both.
\<close>

definition round_even :: "rat \<Rightarrow> int" where
  "round_even r =
     (let f = \<lfloor>r\<rfloor>; d = r - of_int f
      in if d < 1 / 2 then f else if 1 / 2 < d then f + 1 else if even f then f else f + 1)"

definition ilog2 :: "rat \<Rightarrow> int" where
  "ilog2 a =
     (if 1 \<le> a then int (floorlog 2 (nat \<lfloor>a\<rfloor>)) - 1
      else - int (floorlog 2 (nat (\<lceil>1 / a\<rceil> - 1))))"

definition double :: "rat \<Rightarrow> rat" where
  "double x =
     (if x = 0 then 0
      else let u = 2 powi (ilog2 \<bar>x\<bar> - 52) in of_int (round_even (x / u)) * u)"



section \<open>PopulationGenerationScroller.js\<close>

text \<open>
  A Range is a pair of numbers \<open>min\<close> and \<open>max\<close>; its constructor requires
  \<open>min \<le> max\<close> by assertion only. \<open>getLength\<close> subtracts the two doubles.
\<close>

record 'a Range =
  min_range :: 'a
  max_range :: 'a










section \<open>BunnyCounts, ProportionsCounts\<close>

text \<open>
  Modelled from the spec: \<^verbatim>\<open>BunnyCounts.js\<close> is not among the sources. The spec describes
  a BunnyCounts as an immutable snapshot holding the total count and, for each gene, the
  count of each allele's phenotypic expression; the genes are fur, ears and teeth.
  ProportionsModel stores such values and hands them on, and never looks inside.
\<close>

record BunnyCounts =
  totalCount :: nat
  furNormalCount :: nat
  furMutantCount :: nat
  earsNormalCount :: nat
  earsMutantCount :: nat
  teethNormalCount :: nat
  teethMutantCount :: nat

definition withZero :: BunnyCounts where
  "withZero = \<lparr> totalCount = 0, furNormalCount = 0, furMutantCount = 0, earsNormalCount = 0,
                earsMutantCount = 0, teethNormalCount = 0, teethMutantCount = 0 \<rparr>"

text \<open>
  Modelled from the spec: \<^verbatim>\<open>NaturalSelectionUtils.isNonNegativeInteger\<close> is not among the
  sources. Generation numbers are integers in the model, so the sign is what is left to test.
\<close>

definition isNonNegativeInteger :: "int \<Rightarrow> bool" where
  "isNonNegativeInteger v = (0 \<le> v)"

text \<open>
  ProportionsCounts (its constructor checks its arguments by assertion only). The start
  counts are nullable in the model: \<open>recordEndCounts\<close> passes on the value of
  \<open>currentStartCountsProperty\<close>, which is null until the first \<open>recordStartCounts\<close>.
\<close>

record ProportionsCounts =
  generation :: int
  startCounts :: "BunnyCounts option"
  endCounts :: BunnyCounts

definition new_ProportionsCounts ::
    "bool \<Rightarrow> int \<Rightarrow> BunnyCounts option \<Rightarrow> BunnyCounts \<Rightarrow> error + ProportionsCounts" where
  "new_ProportionsCounts ea g sc ec =
     bindE (js_assert ea (isNonNegativeInteger g)) (\<lambda>_.
     bindE (js_assert ea (sc \<noteq> None)) (\<lambda>_.
     Inr \<lparr> generation = g, startCounts = sc, endCounts = ec \<rparr>))"

section \<open>ProportionsModel\<close>

text \<open>
  The state is the value of every Property the class creates or is given, the observable
  array \<open>previousCounts\<close>, and whether \<open>updateEndCounts\<close> is currently registered as a
  listener of \<open>liveBunnyCountsProperty\<close>.

  Properties notify their listeners synchronously, in the order of registration, and only
  when the value that is set differs from the current one; \<open>link\<close> and \<open>multilink\<close> also
  call the listener once at registration. The model runs the listeners that this class
  registers; listeners registered elsewhere and the argument checks inside the Property
  classes are outside of it. Properties compare objects by reference: a BunnyCounts that
  is written to a Property is a new object, never the one the Property holds, so its
  listeners are always told; null is equal to null.

  A method or a setter either returns, or throws and leaves behind the state reached at
  the throw.
\<close>

datatype 'a outcome = is_Returned: Returned (state_of: 'a) | Threw (thrown: error) (state_of: 'a)

definition andThen :: "'a outcome \<Rightarrow> ('a \<Rightarrow> 'a outcome) \<Rightarrow> 'a outcome" where
  "andThen m f = (case m of Returned s \<Rightarrow> f s | Threw e s \<Rightarrow> Threw e s)"

text \<open>Reading a JavaScript array at an integer index: \<^verbatim>\<open>undefined\<close> outside of it.\<close>

definition js_index :: "'a list \<Rightarrow> int \<Rightarrow> 'a option" where
  "js_index xs i = (if 0 \<le> i \<and> i < int (length xs) then Some (xs ! nat i) else None)"

record ProportionsModel =
  clockGenerationProperty :: nat
  isPlayingProperty :: bool
  liveBunnyCountsProperty :: BunnyCounts
  updateEndCountsLinked :: bool
  valuesVisibleProperty :: bool
  proportionsGenerationProperty :: int
  proportionsGenerationRange :: "int Range"
  startCountsProperty :: "BunnyCounts option"
  endCountsProperty :: BunnyCounts
  currentStartCountsProperty :: "BunnyCounts option"
  previousCounts :: "ProportionsCounts list"
  furVisibleProperty :: bool
  earsVisibleProperty :: bool
  teethVisibleProperty :: bool

definition isDisplayingCurrentGenerationProperty :: "ProportionsModel \<Rightarrow> bool" where
  "isDisplayingCurrentGenerationProperty s =
     (proportionsGenerationProperty s = int (clockGenerationProperty s))"

definition hasDataProperty :: "ProportionsModel \<Rightarrow> bool" where
  "hasDataProperty s = (currentStartCountsProperty s \<noteq> None)"

definition updateEndCounts :: "ProportionsModel \<Rightarrow> ProportionsModel" where
  "updateEndCounts s = s\<lparr> endCountsProperty := liveBunnyCountsProperty s \<rparr>"

text \<open>
  The listener of \<open>proportionsGenerationProperty\<close> that pauses the sim. Setting
  \<open>isPlayingProperty\<close> to false calls the multilink on
  \<open>[isPlayingProperty, clockGenerationProperty]\<close>, whose body is guarded by
  \<open>isPlaying\<close> and so does nothing here.
\<close>

definition pauseListener :: "ProportionsModel \<Rightarrow> ProportionsModel" where
  "pauseListener s =
     (if proportionsGenerationProperty s \<noteq> int (clockGenerationProperty s)
      then s\<lparr> isPlayingProperty := False \<rparr> else s)"

text \<open>
  The multilink on \<open>[proportionsGenerationProperty, currentStartCountsProperty]\<close> that
  decides what to display. \<open>previousCounts[proportionsGeneration]\<close> is \<^verbatim>\<open>undefined\<close>
  outside the array, and reading \<open>counts.generation\<close> (assertions enabled) or
  \<open>counts.startCounts\<close> (otherwise) then throws a TypeError.
\<close>

definition displayListener :: "bool \<Rightarrow> ProportionsModel \<Rightarrow> ProportionsModel outcome" where
  "displayListener ea s0 =
     (let s = s0\<lparr> updateEndCountsLinked := False \<rparr> in
      case currentStartCountsProperty s of
        Some currentStartCounts \<Rightarrow>
          if proportionsGenerationProperty s = int (clockGenerationProperty s)
          then Returned (updateEndCounts
                 (s\<lparr> startCountsProperty := Some currentStartCounts,
                     updateEndCountsLinked := True \<rparr>))
          else (case js_index (previousCounts s) (proportionsGenerationProperty s) of
                  None \<Rightarrow> Threw TypeError s
                | Some counts \<Rightarrow>
                    if ea \<and> generation counts \<noteq> proportionsGenerationProperty s
                    then Threw AssertionError s
                    else Returned (s\<lparr> startCountsProperty := startCounts counts,
                                      endCountsProperty := endCounts counts \<rparr>))
      | None \<Rightarrow>
          Returned (s\<lparr> startCountsProperty := Some withZero, endCountsProperty := withZero \<rparr>))"

text \<open>The listeners of \<open>proportionsGenerationProperty\<close>, in the order of registration.\<close>

definition notifyProportionsGeneration ::
    "bool \<Rightarrow> ProportionsModel \<Rightarrow> ProportionsModel outcome" where
  "notifyProportionsGeneration ea s = displayListener ea (pauseListener s)"

definition set_proportionsGenerationProperty ::
    "bool \<Rightarrow> int \<Rightarrow> ProportionsModel \<Rightarrow> ProportionsModel outcome" where
  "set_proportionsGenerationProperty ea v s =
     (if v = proportionsGenerationProperty s then Returned s
      else notifyProportionsGeneration ea (s\<lparr> proportionsGenerationProperty := v \<rparr>))"

text \<open>\<open>NumberProperty.setValueAndRange\<close>: both are set, then the value's listeners are told.\<close>

definition setValueAndRange ::
    "bool \<Rightarrow> int \<Rightarrow> int Range \<Rightarrow> ProportionsModel \<Rightarrow> ProportionsModel outcome" where
  "setValueAndRange ea v r s =
     (let s' = s\<lparr> proportionsGenerationProperty := v, proportionsGenerationRange := r \<rparr> in
      if v = proportionsGenerationProperty s then Returned s'
      else notifyProportionsGeneration ea s')"

definition resetValueAndRange :: "bool \<Rightarrow> ProportionsModel \<Rightarrow> ProportionsModel outcome" where
  "resetValueAndRange ea s = setValueAndRange ea 0 \<lparr> min_range = 0, max_range = 0 \<rparr> s"

text \<open>The multilink on \<open>[isPlayingProperty, clockGenerationProperty]\<close>.\<close>

definition playListener :: "bool \<Rightarrow> ProportionsModel \<Rightarrow> ProportionsModel outcome" where
  "playListener ea s =
     (if isPlayingProperty s
      then setValueAndRange ea (int (clockGenerationProperty s))
             \<lparr> min_range = 0, max_range = int (clockGenerationProperty s) \<rparr> s
      else Returned s)"

definition set_isPlayingProperty ::
    "bool \<Rightarrow> bool \<Rightarrow> ProportionsModel \<Rightarrow> ProportionsModel outcome" where
  "set_isPlayingProperty ea b s =
     (if b = isPlayingProperty s then Returned s
      else playListener ea (s\<lparr> isPlayingProperty := b \<rparr>))"

definition set_clockGenerationProperty ::
    "bool \<Rightarrow> nat \<Rightarrow> ProportionsModel \<Rightarrow> ProportionsModel outcome" where
  "set_clockGenerationProperty ea n s =
     (if n = clockGenerationProperty s then Returned s
      else playListener ea (s\<lparr> clockGenerationProperty := n \<rparr>))"

definition set_liveBunnyCountsProperty :: "BunnyCounts \<Rightarrow> ProportionsModel \<Rightarrow> ProportionsModel" where
  "set_liveBunnyCountsProperty v s =
     (let s' = s\<lparr> liveBunnyCountsProperty := v \<rparr> in
      if updateEndCountsLinked s' then updateEndCounts s' else s')"

definition set_currentStartCountsProperty ::
    "bool \<Rightarrow> BunnyCounts option \<Rightarrow> ProportionsModel \<Rightarrow> ProportionsModel outcome" where
  "set_currentStartCountsProperty ea v s =
     (if v = None \<and> currentStartCountsProperty s = None then Returned s
      else displayListener ea (s\<lparr> currentStartCountsProperty := v \<rparr>))"

text \<open>
  The constructor, given the values of the three Properties passed in. The listeners run
  once as they are registered: the pause listener, the play multilink, the display
  multilink.
\<close>

definition new_ProportionsModel ::
    "bool \<Rightarrow> BunnyCounts \<Rightarrow> nat \<Rightarrow> bool \<Rightarrow> ProportionsModel outcome" where
  "new_ProportionsModel ea live clock playing =
     andThen (playListener ea (pauseListener
       \<lparr> clockGenerationProperty = clock,
         isPlayingProperty = playing,
         liveBunnyCountsProperty = live,
         updateEndCountsLinked = False,
         valuesVisibleProperty = True,
         proportionsGenerationProperty = 0,
         proportionsGenerationRange = \<lparr> min_range = 0, max_range = 0 \<rparr>,
         startCountsProperty = Some withZero,
         endCountsProperty = withZero,
         currentStartCountsProperty = None,
         previousCounts = [],
         furVisibleProperty = True,
         earsVisibleProperty = True,
         teethVisibleProperty = True \<rparr>))
       (displayListener ea)"

definition reset :: "bool \<Rightarrow> ProportionsModel \<Rightarrow> ProportionsModel outcome" where
  "reset ea s =
     andThen (resetValueAndRange ea (s\<lparr> valuesVisibleProperty := True \<rparr>)) (\<lambda>s1.
     andThen (set_currentStartCountsProperty ea None
                (s1\<lparr> startCountsProperty := Some withZero, endCountsProperty := withZero \<rparr>)) (\<lambda>s2.
     Returned (s2\<lparr> previousCounts := [], furVisibleProperty := True,
                   earsVisibleProperty := True, teethVisibleProperty := True \<rparr>)))"

definition recordStartCounts ::
    "bool \<Rightarrow> int \<Rightarrow> BunnyCounts \<Rightarrow> ProportionsModel \<Rightarrow> ProportionsModel outcome" where
  "recordStartCounts ea clockGeneration startCounts' s =
     (if ea \<and> \<not> isNonNegativeInteger clockGeneration then Threw AssertionError s
      else if ea \<and> clockGeneration \<noteq> int (clockGenerationProperty s) then Threw AssertionError s
      else set_currentStartCountsProperty ea (Some startCounts') s)"

definition recordEndCounts ::
    "bool \<Rightarrow> int \<Rightarrow> BunnyCounts \<Rightarrow> ProportionsModel \<Rightarrow> ProportionsModel outcome" where
  "recordEndCounts ea g endCounts' s =
     (if ea \<and> \<not> isNonNegativeInteger g then Threw AssertionError s
      else if ea \<and> g \<noteq> int (clockGenerationProperty s) - 1 then Threw AssertionError s
      else if ea \<and> int (length (previousCounts s)) \<noteq> g then Threw AssertionError s
      else case new_ProportionsCounts ea g (currentStartCountsProperty s) endCounts' of
             Inl e \<Rightarrow> Threw e s
           | Inr counts \<Rightarrow> Returned (s\<lparr> previousCounts := previousCounts s @ [counts] \<rparr>))"

subsection \<open>Everything that can happen to a ProportionsModel\<close>

text \<open>
  The three public methods, and a change of each Property that has a listener of this class:
  the clock generation, the play state and the live counts, which other components write, and
  the displayed generation, which the view's generation spinner writes. The clock's
  generation is a natural number. The spinner offers the values of the Property's range;
  the model follows a write of any integer as the code does when the Property does not
  check its value.
\<close>

datatype operation =
    RecordStartCounts int BunnyCounts
  | RecordEndCounts int BunnyCounts
  | Reset
  | SetClockGeneration nat
  | SetIsPlaying bool
  | SetLiveBunnyCounts BunnyCounts
  | SetProportionsGeneration int

fun perform :: "bool \<Rightarrow> operation \<Rightarrow> ProportionsModel \<Rightarrow> ProportionsModel outcome" where
  "perform ea (RecordStartCounts g c) s = recordStartCounts ea g c s"
| "perform ea (RecordEndCounts g c) s = recordEndCounts ea g c s"
| "perform ea Reset s = reset ea s"
| "perform ea (SetClockGeneration n) s = set_clockGenerationProperty ea n s"
| "perform ea (SetIsPlaying b) s = set_isPlayingProperty ea b s"
| "perform ea (SetLiveBunnyCounts c) s = Returned (set_liveBunnyCountsProperty c s)"
| "perform ea (SetProportionsGeneration v) s = set_proportionsGenerationProperty ea v s"

text \<open>
  An operation is rejected when an assertion of the method itself fails: the method throws
  before it has assigned anything, no listener is involved, and the model can be used as
  before. Every other throw comes out of a listener.
\<close>

fun rejects :: "bool \<Rightarrow> operation \<Rightarrow> ProportionsModel \<Rightarrow> bool" where
  "rejects ea (RecordStartCounts g c) s =
     (ea \<and> (\<not> isNonNegativeInteger g \<or> g \<noteq> int (clockGenerationProperty s)))"
| "rejects ea (RecordEndCounts g c) s = (\<not> is_Returned (recordEndCounts ea g c s))"
| "rejects ea _ s = False"

text \<open>
  A run of operations. A rejected operation changes nothing and the run goes on. A throw
  out of a listener ends the run with the state reached at the throw: the Property that was
  telling its listeners is left in the middle of it, and what later writes to it do is
  outside the model.
\<close>

fun run :: "bool \<Rightarrow> operation list \<Rightarrow> ProportionsModel \<Rightarrow> ProportionsModel outcome" where
  "run ea [] s = Returned s"
| "run ea (op # ops) s =
     (case perform ea op s of
        Returned s' \<Rightarrow> run ea ops s'
      | Threw e s' \<Rightarrow> if rejects ea op s then run ea ops s' else Threw e s')"

text \<open>
  The generations that have completed their cycle in the current run: those whose
  \<open>recordEndCounts\<close> call has returned since the ledger was last cleared by a \<open>reset\<close>
  that returned. \<open>done\<close> is the set so far.
\<close>

fun completed_step :: "bool \<Rightarrow> operation \<Rightarrow> ProportionsModel \<Rightarrow> int set \<Rightarrow> int set" where
  "completed_step ea (RecordEndCounts g c) s done =
     (if is_Returned (recordEndCounts ea g c s) then insert g done else done)"
| "completed_step ea Reset s done = (if is_Returned (reset ea s) then {} else done)"
| "completed_step ea _ s done = done"

fun completed :: "bool \<Rightarrow> operation list \<Rightarrow> ProportionsModel \<Rightarrow> int set \<Rightarrow> int set" where
  "completed ea [] s done = done"
| "completed ea (op # ops) s done =
     (case perform ea op s of
        Returned s' \<Rightarrow> completed ea ops s' (completed_step ea op s done)
      | Threw e s' \<Rightarrow> if rejects ea op s then completed ea ops s' done else done)"

text \<open>
  A run is obedient when every \<open>recordEndCounts(g)\<close> in it that returns is called with
  \<open>g\<close> the length of the history, as the assertion of the method asks.
\<close>

fun obeys :: "bool \<Rightarrow> operation \<Rightarrow> ProportionsModel \<Rightarrow> bool" where
  "obeys ea (RecordEndCounts g c) s =
     (is_Returned (recordEndCounts ea g c s) \<longrightarrow> int (length (previousCounts s)) = g)"
| "obeys ea _ s = True"

fun obedient :: "bool \<Rightarrow> operation list \<Rightarrow> ProportionsModel \<Rightarrow> bool" where
  "obedient ea [] s = True"
| "obedient ea (op # ops) s =
     (obeys ea op s \<and>
      (case perform ea op s of
         Returned s' \<Rightarrow> obedient ea ops s'
       | Threw e s' \<Rightarrow> rejects ea op s \<longrightarrow> obedient ea ops s'))"

text \<open>The records are indexed by their generation.\<close>

definition indexed_by_generation :: "ProportionsCounts list \<Rightarrow> bool" where
  "indexed_by_generation pcs = (map generation pcs = map int [0 ..< length pcs])"

text \<open>
  One generation cycle as the ledger sees it: the start counts of generation \<open>g\<close> are
  recorded, the clock moves on to \<open>g + 1\<close>, the end counts of \<open>g\<close> are recorded.
  \<open>cycles n\<close> are the cycles of generations \<open>0, \<dots>, n - 1\<close>.
\<close>

definition generationCycle :: "nat \<Rightarrow> BunnyCounts \<Rightarrow> operation list" where
  "generationCycle g c =
     [RecordStartCounts (int g) c, SetClockGeneration (g + 1), RecordEndCounts (int g) c]"

fun cycles :: "nat \<Rightarrow> operation list" where
  "cycles 0 = []"
| "cycles (Suc n) = cycles n @ generationCycle n withZero"

text \<open>The sim is playing, and the clock, the display and the history are at generation \<open>n\<close>.\<close>

definition playing_at :: "nat \<Rightarrow> ProportionsModel \<Rightarrow> bool" where
  "playing_at n s = (isPlayingProperty s
      \<and> clockGenerationProperty s = n \<and> proportionsGenerationProperty s = int n
      \<and> length (previousCounts s) = n
      \<and> (n > 0 \<longrightarrow> currentStartCountsProperty s = Some withZero))"

text \<open>Whenever the sim is playing, the displayed generation is the clock's generation.\<close>

definition playing_shows_current :: "ProportionsModel \<Rightarrow> bool" where
  "playing_shows_current s =
     (isPlayingProperty s \<longrightarrow>
        proportionsGenerationProperty s = int (clockGenerationProperty s))"

section \<open>NaturalSelectionScreenView\<close>

text \<open>
  Modelled from the spec: \<^verbatim>\<open>SimulationMode.js\<close> is not among the sources. The spec names
  the three modes Staged, Active and Completed; the view compares with \<open>COMPLETED\<close>.
\<close>

datatype SimulationMode = STAGED | ACTIVE | COMPLETED

text \<open>
  Of the screen view, the mode Property of the model, the \<open>enabled\<close> state of the four
  controls that the mode listener writes, and which dialogs have been shown.
\<close>

record NaturalSelectionScreenView =
  simulationModeProperty :: SimulationMode
  addMutationsPanelContentEnabled :: bool
  environmentalFactorsPanelContentEnabled :: bool
  timeControlNodeEnabled :: bool
  environmentRadioButtonGroupEnabled :: bool
  diedDialogShown :: bool
  worldDialogShown :: bool
  memoryLimitDialogShown :: bool

definition simulationModeListener :: "NaturalSelectionScreenView \<Rightarrow> NaturalSelectionScreenView" where
  "simulationModeListener v =
     (let enabled = (simulationModeProperty v \<noteq> COMPLETED) in
      v\<lparr> addMutationsPanelContentEnabled := enabled,
         environmentalFactorsPanelContentEnabled := enabled,
         timeControlNodeEnabled := enabled,
         environmentRadioButtonGroupEnabled := enabled \<rparr>)"

definition set_simulationModeProperty ::
    "SimulationMode \<Rightarrow> NaturalSelectionScreenView \<Rightarrow> NaturalSelectionScreenView" where
  "set_simulationModeProperty m v =
     (if m = simulationModeProperty v then v
      else simulationModeListener (v\<lparr> simulationModeProperty := m \<rparr>))"

text \<open>The constructor registers the mode listener with \<open>link\<close>, which calls it once.\<close>

definition new_NaturalSelectionScreenView :: "SimulationMode \<Rightarrow> NaturalSelectionScreenView" where
  "new_NaturalSelectionScreenView m =
     simulationModeListener
       \<lparr> simulationModeProperty = m,
         addMutationsPanelContentEnabled = True,
         environmentalFactorsPanelContentEnabled = True,
         timeControlNodeEnabled = True,
         environmentRadioButtonGroupEnabled = True,
         diedDialogShown = False,
         worldDialogShown = False,
         memoryLimitDialogShown = False \<rparr>"

text \<open>
  \<open>endSimulation\<close>; interrupting input, moving the bunnies to the ground and updating the
  sprites act on other components.
\<close>

definition endSimulation :: "NaturalSelectionScreenView \<Rightarrow> NaturalSelectionScreenView" where
  "endSimulation v = set_simulationModeProperty COMPLETED v"

datatype TerminalEvent = AllBunniesHaveDied | BunniesHaveTakenOverTheWorld | MemoryLimit

text \<open>The listeners of the three emitters.\<close>

fun emit :: "TerminalEvent \<Rightarrow> NaturalSelectionScreenView \<Rightarrow> NaturalSelectionScreenView" where
  "emit AllBunniesHaveDied v = (endSimulation v)\<lparr> diedDialogShown := True \<rparr>"
| "emit BunniesHaveTakenOverTheWorld v = (endSimulation v)\<lparr> worldDialogShown := True \<rparr>"
| "emit MemoryLimit v = (endSimulation v)\<lparr> memoryLimitDialogShown := True \<rparr>"

definition controlsEnabled :: "NaturalSelectionScreenView \<Rightarrow> bool list" where
  "controlsEnabled v =
     [addMutationsPanelContentEnabled v, environmentalFactorsPanelContentEnabled v,
      timeControlNodeEnabled v, environmentRadioButtonGroupEnabled v]"

section \<open>The simulation around the screen view\<close>

text \<open>
  Modelled from the spec: NaturalSelectionModel and the generation clock, which own the
  mode and do the stepping, are not among the sources. The spec gives the generation clock
  the states Staged (clock not yet running), Active (clock advancing) and Completed
  (terminal), with the transitions Staged to Active on the start command, Active to
  Completed on any terminal event, and none out of Completed except a full reset back to
  Staged; a step advances the clock only in the Active state. The terminal events reach the
  mode through the listeners of the screen view above. A full reset stands for the model
  methods that the Reset All and the Start Over button of the view call.
\<close>

record Simulation =
  screenView :: NaturalSelectionScreenView
  clockTicks :: nat

datatype Command = Start | Step | Terminal TerminalEvent | FullReset

fun command :: "Command \<Rightarrow> Simulation \<Rightarrow> Simulation" where
  "command Start sim =
     (if simulationModeProperty (screenView sim) = STAGED
      then sim\<lparr> screenView := set_simulationModeProperty ACTIVE (screenView sim) \<rparr>
      else sim)"
| "command Step sim =
     (if simulationModeProperty (screenView sim) = ACTIVE
      then sim\<lparr> clockTicks := Suc (clockTicks sim) \<rparr>
      else sim)"
| "command (Terminal e) sim = sim\<lparr> screenView := emit e (screenView sim) \<rparr>"
| "command FullReset sim =
     sim\<lparr> screenView := set_simulationModeProperty STAGED (screenView sim), clockTicks := 0 \<rparr>"

fun commands :: "Command list \<Rightarrow> Simulation \<Rightarrow> Simulation" where
  "commands [] sim = sim"
| "commands (c # cs) sim = commands cs (command c sim)"

section \<open>Properties of the view transform\<close>

lemma viewToModelZ_value:
  assumes "95 \<le> yView" "yView \<le> 310"
  shows "viewToModelZ ea new_EnvironmentModelViewTransform yView = Inr (64500 / (120 + yView))"
proof -
  have nz: "120 + yView \<noteq> 0" using assms by linarith
  have d: "300 * (95 - yView) + 150 * (yView - 310) = - (150 * (120 + yView))"
    by (simp add: algebra_simps)
  have "150 * 300 * (95 - 310) / (300 * (95 - yView) + 150 * (yView - 310))
          = 64500 / (120 + yView)"
    unfolding d using nz by (simp add: field_simps)
  moreover have "300 * (95 - yView) + 150 * (yView - 310) \<noteq> 0"
    unfolding d using nz by simp
  ultimately show ?thesis
    using assms
    by (simp add: viewToModelZ_def new_EnvironmentModelViewTransform_def js_assert_def
        bindE_def js_div_def)
qed

text \<open>
  C8. For every view point with \<open>0 \<le> xView \<le> 770\<close> (the view width) and
  \<open>95 \<le> yView \<le> 310\<close> (horizon to view height), \<open>viewToModelGroundPosition\<close> returns
  a position, \<open>modelToViewX\<close> and \<open>modelToViewY\<close> return on it, and they give back exactly
  \<open>(xView, yView)\<close>, over the rationals and with assertions enabled or not.
\<close>

theorem ground_round_trip:
  assumes "0 \<le> xView" "xView \<le> width (viewSize new_EnvironmentModelViewTransform)"
      and "yHorizonView new_EnvironmentModelViewTransform \<le> yView"
      and "yView \<le> height (viewSize new_EnvironmentModelViewTransform)"
  shows "groundRoundTrip ea new_EnvironmentModelViewTransform xView yView = Inr (xView, yView)"
proof -
  let ?t = new_EnvironmentModelViewTransform
  let ?z = "64500 / (120 + yView)"
  have y: "95 \<le> yView" "yView \<le> 310" and x: "0 \<le> xView" "xView \<le> 770"
    using assms by (simp_all add: new_EnvironmentModelViewTransform_def)
  have pos: "0 < 120 + yView" using y by linarith
  have zpos: "0 < ?z" using pos by simp
  have zlo: "150 \<le> ?z" using pos y by (simp add: field_simps)
  have zhi: "?z \<le> 300" using pos y by (simp add: field_simps)
  have Z: "viewToModelZ ea ?t yView = Inr ?z" by (rule viewToModelZ_value [OF y])
  have X: "viewToModelX ?t xView ?z = Inr (?z * (xView - 385) / (645 / 2))"
    by (simp add: viewToModelX_def new_EnvironmentModelViewTransform_def js_div_def)
  have G: "getGroundY ea ?t ?z = Inr (- (300 - ?z) / 150 * 100)"
    using zlo zhi
    by (simp add: getGroundY_def new_EnvironmentModelViewTransform_def js_assert_def
        bindE_def js_div_def)
  let ?p = "\<lparr> x3 = ?z * (xView - 385) / (645 / 2), y3 = - (300 - ?z) / 150 * 100, z3 = ?z \<rparr>"
  have A1: "js_assert ea (xView \<ge> 0 \<and> xView \<le> width (viewSize ?t)) = Inr ()"
    using x by (simp add: js_assert_def new_EnvironmentModelViewTransform_def)
  have A2: "js_assert ea (yView \<ge> yHorizonView ?t \<and> yView \<le> height (viewSize ?t)) = Inr ()"
    using y by (simp add: js_assert_def new_EnvironmentModelViewTransform_def)
  have P: "viewToModelGroundPosition ea ?t xView yView = Inr ?p"
    by (simp add: viewToModelGroundPosition_def A1 A2 Z X G bindE_def)
  have zne: "z3 ?p \<noteq> 0" using zpos by simp
  have qx: "x3 ?p / z3 ?p = (xView - 385) * 2 / 645"
    using pos by (simp add: field_simps)
  have "width (viewSize ?t) / 2 + x3 ?p / z3 ?p * xyScaleFactor ?t = xView"
    unfolding qx by (simp add: new_EnvironmentModelViewTransform_def field_simps)
  then have BX: "modelToViewX ea ?t ?p = Inr xView"
    using zne unfolding modelToViewX_def js_assert_def bindE_def js_div_def by simp
  have qy: "y3 ?p / z3 ?p = (95 - yView) * 2 / 645"
    using pos by (simp add: field_simps)
  have "yHorizonView ?t - y3 ?p / z3 ?p * xyScaleFactor ?t = yView"
    unfolding qy by (simp add: new_EnvironmentModelViewTransform_def field_simps)
  then have BY: "modelToViewY ea ?t ?p = Inr yView"
    using zne unfolding modelToViewY_def js_assert_def bindE_def js_div_def by simp
  show ?thesis
    unfolding groundRoundTrip_def P by (simp only: bindE_def sum.case BX BY)
qed

theorem ground_round_trip_witness:
  "groundRoundTrip True new_EnvironmentModelViewTransform 100 200 = Inr (100, 200)"
proof -
  have "(0::rat) \<le> 100" "100 \<le> width (viewSize new_EnvironmentModelViewTransform)"
       "yHorizonView new_EnvironmentModelViewTransform \<le> 200"
       "200 \<le> height (viewSize new_EnvironmentModelViewTransform)"
    by (simp_all add: new_EnvironmentModelViewTransform_def)
  then show ?thesis by (rule ground_round_trip)
qed

section \<open>Properties of the generation scroller\<close>



lemma ilog2_less:
  assumes "0 < a"
  shows "a < 2 powi (ilog2 a + 1)"
proof (cases "1 \<le> a")
  case True
  define n where "n = nat \<lfloor>a\<rfloor>"
  have n: "0 < n" using True by (simp add: n_def)
  have "n < 2 ^ floorlog 2 n" using floorlog_bounds [of n 2] n by simp
  then have "int n < 2 ^ floorlog 2 n" by (metis of_nat_less_iff of_nat_numeral of_nat_power)
  then have "\<lfloor>a\<rfloor> < 2 ^ floorlog 2 n" using True by (simp add: n_def)
  then have "a < of_int (2 ^ floorlog 2 n)" by (simp only: floor_less_iff)
  then have "a < 2 ^ floorlog 2 n" by simp
  moreover have "ilog2 a + 1 = int (floorlog 2 n)"
    using True by (simp add: ilog2_def n_def)
  ultimately show ?thesis by simp
next
  case False
  define m where "m = nat (\<lceil>1 / a\<rceil> - 1)"
  define f where "f = floorlog 2 m"
  have "1 < 1 / a" using assms False by simp
  then have c: "2 \<le> \<lceil>1 / a\<rceil>" by (simp add: le_ceiling_iff)
  then have m: "0 < m" by (simp add: m_def)
  then have f: "0 < f" by (simp add: f_def floorlog_def)
  have "2 ^ (f - 1) \<le> m" using floorlog_bounds [of m 2] m by (simp add: f_def)
  then have "(2::int) ^ (f - 1) \<le> int m" by (metis of_nat_le_iff of_nat_numeral of_nat_power)
  then have "(2::int) ^ (f - 1) < \<lceil>1 / a\<rceil>" using c assms by (simp add: m_def)
  then have "of_int (2 ^ (f - 1)) < 1 / a" by (simp only: less_ceiling_iff)
  then have "2 ^ (f - 1) < 1 / a" by simp
  then have "a < 1 / 2 ^ (f - 1)" using assms by (simp add: field_simps)
  moreover have "ilog2 a + 1 = - int (f - 1)"
    using False f by (simp add: ilog2_def f_def m_def of_nat_diff)
  ultimately show ?thesis by (simp only: power_int_minus_divide power_int_of_nat)
qed

lemma round_even_nearest: "\<bar>of_int (round_even r) - r\<bar> \<le> 1 / 2"
proof -
  have "of_int \<lfloor>r\<rfloor> \<le> r" "r < of_int \<lfloor>r\<rfloor> + 1" by linarith+
  then show ?thesis by (auto simp add: round_even_def Let_def) 
qed

lemma double_nearest:
  "\<bar>double x - x\<bar> \<le> 2 powi (ilog2 \<bar>x\<bar> - 52) / 2"
proof (cases "x = 0")
  case True
  then show ?thesis by (simp add: double_def)
next
  case False
  define u :: rat where "u = 2 powi (ilog2 \<bar>x\<bar> - 52)"
  have u: "0 < u" by (simp add: u_def)
  have "double x - x = (of_int (round_even (x / u)) - x / u) * u"
    using False u by (simp add: double_def u_def [symmetric] Let_def field_simps)
  then have "\<bar>double x - x\<bar> = \<bar>of_int (round_even (x / u)) - x / u\<bar> * u"
    using u by (simp add: abs_mult)
  also have "\<dots> \<le> 1 / 2 * u"
    using round_even_nearest [of "x / u"] u by (intro mult_right_mono) simp_all
  finally show ?thesis by (simp add: u_def)
qed














section \<open>Properties of ProportionsModel\<close>

subsection \<open>What the listeners and setters leave alone\<close>

lemma displayListener_frame:
  "previousCounts (state_of (displayListener ea s)) = previousCounts s"
  "clockGenerationProperty (state_of (displayListener ea s)) = clockGenerationProperty s"
  "isPlayingProperty (state_of (displayListener ea s)) = isPlayingProperty s"
  "proportionsGenerationProperty (state_of (displayListener ea s)) = proportionsGenerationProperty s"
  "currentStartCountsProperty (state_of (displayListener ea s)) = currentStartCountsProperty s"
  "liveBunnyCountsProperty (state_of (displayListener ea s)) = liveBunnyCountsProperty s"
  by (simp_all add: displayListener_def updateEndCounts_def Let_def split: option.splits)

lemma pauseListener_frame:
  "previousCounts (pauseListener s) = previousCounts s"
  "clockGenerationProperty (pauseListener s) = clockGenerationProperty s"
  "proportionsGenerationProperty (pauseListener s) = proportionsGenerationProperty s"
  "currentStartCountsProperty (pauseListener s) = currentStartCountsProperty s"
  "liveBunnyCountsProperty (pauseListener s) = liveBunnyCountsProperty s"
  by (simp_all add: pauseListener_def)

lemma setValueAndRange_frame:
  "previousCounts (state_of (setValueAndRange ea v r s)) = previousCounts s"
  "clockGenerationProperty (state_of (setValueAndRange ea v r s)) = clockGenerationProperty s"
  "proportionsGenerationProperty (state_of (setValueAndRange ea v r s)) = v"
  "currentStartCountsProperty (state_of (setValueAndRange ea v r s)) = currentStartCountsProperty s"
  "liveBunnyCountsProperty (state_of (setValueAndRange ea v r s)) = liveBunnyCountsProperty s"
  by (simp_all add: setValueAndRange_def notifyProportionsGeneration_def Let_def
      displayListener_frame pauseListener_frame)

lemma playListener_frame:
  "previousCounts (state_of (playListener ea s)) = previousCounts s"
  "clockGenerationProperty (state_of (playListener ea s)) = clockGenerationProperty s"
  "currentStartCountsProperty (state_of (playListener ea s)) = currentStartCountsProperty s"
  "liveBunnyCountsProperty (state_of (playListener ea s)) = liveBunnyCountsProperty s"
  by (simp_all add: playListener_def setValueAndRange_frame)

lemma set_currentStartCounts_frame:
  "previousCounts (state_of (set_currentStartCountsProperty ea v s)) = previousCounts s"
  "clockGenerationProperty (state_of (set_currentStartCountsProperty ea v s)) = clockGenerationProperty s"
  "isPlayingProperty (state_of (set_currentStartCountsProperty ea v s)) = isPlayingProperty s"
  "proportionsGenerationProperty (state_of (set_currentStartCountsProperty ea v s)) = proportionsGenerationProperty s"
  "currentStartCountsProperty (state_of (set_currentStartCountsProperty ea v s)) = v"
  "liveBunnyCountsProperty (state_of (set_currentStartCountsProperty ea v s)) = liveBunnyCountsProperty s"
  by (simp_all add: set_currentStartCountsProperty_def displayListener_frame)

lemma recordStartCounts_previousCounts:
  "previousCounts (state_of (recordStartCounts ea g c s)) = previousCounts s"
  by (simp add: recordStartCounts_def set_currentStartCounts_frame)

lemma recordEndCounts_cases:
  "recordEndCounts ea g e s =
     (if is_Returned (recordEndCounts ea g e s)
      then Returned (s\<lparr> previousCounts := previousCounts s @
             [\<lparr> generation = g, startCounts = currentStartCountsProperty s, endCounts = e \<rparr>] \<rparr>)
      else Threw AssertionError s)"
  by (simp add: recordEndCounts_def new_ProportionsCounts_def bindE_def js_assert_def)

lemma recordEndCounts_returns:
  "is_Returned (recordEndCounts True g e s) \<longleftrightarrow>
     g = int (clockGenerationProperty s) - 1 \<and> int (length (previousCounts s)) = g \<and>
     currentStartCountsProperty s \<noteq> None"
  by (auto simp add: recordEndCounts_def new_ProportionsCounts_def bindE_def js_assert_def
      isNonNegativeInteger_def)

text \<open>The defining equations, for evaluating the model on concrete runs.\<close>

lemmas model_defs =
  new_ProportionsModel_def reset_def recordStartCounts_def recordEndCounts_def
  set_currentStartCountsProperty_def set_liveBunnyCountsProperty_def
  set_clockGenerationProperty_def set_isPlayingProperty_def playListener_def
  resetValueAndRange_def setValueAndRange_def set_proportionsGenerationProperty_def
  notifyProportionsGeneration_def displayListener_def pauseListener_def updateEndCounts_def
  new_ProportionsCounts_def js_index_def js_assert_def bindE_def andThen_def
  isNonNegativeInteger_def generationCycle_def Let_def

subsection \<open>The history under each operation\<close>

lemma indexed_by_generation_iff:
  "indexed_by_generation pcs \<longleftrightarrow> (\<forall>i < length pcs. generation (pcs ! i) = int i)"
  unfolding indexed_by_generation_def
  by (subst list_eq_iff_nth_eq) simp

lemma recordEndCounts_previousCounts:
  "previousCounts (state_of (recordEndCounts ea g e s)) =
     (if is_Returned (recordEndCounts ea g e s)
      then previousCounts s @
             [\<lparr> generation = g, startCounts = currentStartCountsProperty s, endCounts = e \<rparr>]
      else previousCounts s)"
  by (simp add: recordEndCounts_def new_ProportionsCounts_def bindE_def js_assert_def)

lemma displayListener_no_data:
  "currentStartCountsProperty s = None \<Longrightarrow>
     displayListener ea s = Returned (s\<lparr> updateEndCountsLinked := False,
        startCountsProperty := Some withZero, endCountsProperty := withZero \<rparr>)"
  by (simp add: displayListener_def Let_def)

lemma set_currentStartCounts_None:
  "set_currentStartCountsProperty ea None s =
     Returned (if currentStartCountsProperty s = None then s
               else s\<lparr> currentStartCountsProperty := None, updateEndCountsLinked := False,
                      startCountsProperty := Some withZero, endCountsProperty := withZero \<rparr>)"
  by (simp add: set_currentStartCountsProperty_def displayListener_no_data)

lemma reset_Threw:
  assumes "resetValueAndRange ea (s\<lparr> valuesVisibleProperty := True \<rparr>) = Threw e s1"
  shows "reset ea s = Threw e s1"
  using assms by (simp add: reset_def andThen_def)

lemma reset_Returned:
  assumes "resetValueAndRange ea (s\<lparr> valuesVisibleProperty := True \<rparr>) = Returned s1"
  shows "is_Returned (reset ea s)"
    and "previousCounts (state_of (reset ea s)) = []"
    and "currentStartCountsProperty (state_of (reset ea s)) = None"
    and "startCountsProperty (state_of (reset ea s)) = Some withZero"
    and "endCountsProperty (state_of (reset ea s)) = withZero"
    and "proportionsGenerationProperty (state_of (reset ea s)) = proportionsGenerationProperty s1"
  using assms by (simp_all add: reset_def andThen_def set_currentStartCounts_None)

lemma reset_previousCounts:
  "previousCounts (state_of (reset ea s)) =
     (if is_Returned (reset ea s) then [] else previousCounts s)"
proof (cases "resetValueAndRange ea (s\<lparr> valuesVisibleProperty := True \<rparr>)")
  case (Returned s1)
  then show ?thesis by (simp add: reset_Returned)
next
  case (Threw e s1)
  then have "previousCounts s1 = previousCounts (s\<lparr> valuesVisibleProperty := True \<rparr>)"
    using setValueAndRange_frame(1) [of ea 0 "\<lparr> min_range = 0, max_range = 0 \<rparr>" "s\<lparr> valuesVisibleProperty := True \<rparr>"]
    by (simp add: resetValueAndRange_def)
  with Threw show ?thesis by (simp add: reset_Threw)
qed

lemma perform_previousCounts:
  "previousCounts (state_of (perform ea op s)) =
     (case op of
        RecordEndCounts g e \<Rightarrow>
          if is_Returned (recordEndCounts ea g e s)
          then previousCounts s @
                 [\<lparr> generation = g, startCounts = currentStartCountsProperty s, endCounts = e \<rparr>]
          else previousCounts s
      | Reset \<Rightarrow> if is_Returned (reset ea s) then [] else previousCounts s
      | _ \<Rightarrow> previousCounts s)"
proof (cases op)
  case (RecordEndCounts g e)
  show ?thesis unfolding RecordEndCounts
    by (simp add: recordEndCounts_previousCounts)
next
  case Reset
  then show ?thesis by (simp add: reset_previousCounts)
next
  case (RecordStartCounts g c)
  then show ?thesis by (simp add: recordStartCounts_previousCounts)
next
  case (SetClockGeneration n)
  then show ?thesis by (simp add: set_clockGenerationProperty_def playListener_frame)
next
  case (SetIsPlaying b)
  then show ?thesis by (simp add: set_isPlayingProperty_def playListener_frame)
next
  case (SetLiveBunnyCounts c)
  then show ?thesis by (simp add: set_liveBunnyCountsProperty_def updateEndCounts_def Let_def)
next
  case (SetProportionsGeneration v)
  then show ?thesis
    by (simp add: set_proportionsGenerationProperty_def notifyProportionsGeneration_def
        displayListener_frame pauseListener_frame)
qed

lemma perform_Threw_previousCounts:
  assumes "perform ea op s = Threw e s'"
  shows "previousCounts s' = previousCounts s"
proof -
  have "state_of (perform ea op s) = s'" "\<not> is_Returned (perform ea op s)"
    using assms by simp_all
  then show ?thesis
    using perform_previousCounts [of ea op s] by (cases op) simp_all
qed

lemma history_step:
  assumes "perform ea op s = Returned s'"
  shows "generation ` set (previousCounts s')
           = completed_step ea op s (generation ` set (previousCounts s))"
proof -
  have "state_of (perform ea op s) = s'" "is_Returned (perform ea op s)"
    using assms by simp_all
  then show ?thesis
    using perform_previousCounts [of ea op s] by (cases op) simp_all
qed

lemma history_run:
  "generation ` set (previousCounts (state_of (run ea ops s)))
     = completed ea ops s (generation ` set (previousCounts s))"
proof (induction ops arbitrary: s)
  case Nil
  then show ?case by simp
next
  case (Cons op ops)
  show ?case
  proof (cases "perform ea op s")
    case (Returned s')
    then show ?thesis using Cons.IH [of s'] history_step [OF Returned] by simp
  next
    case (Threw e s')
    then show ?thesis
      using Cons.IH [of s'] perform_Threw_previousCounts [OF Threw] by simp
  qed
qed

lemma index_step:
  assumes "indexed_by_generation (previousCounts s)" and "obeys ea op s"
  shows "indexed_by_generation (previousCounts (state_of (perform ea op s)))"
proof (cases op)
  case (RecordEndCounts g e)
  show ?thesis
  proof (cases "is_Returned (recordEndCounts ea g e s)")
    case True
    then have len: "int (length (previousCounts s)) = g"
      using assms(2) by (simp add: RecordEndCounts)
    have "indexed_by_generation (previousCounts s @
            [\<lparr> generation = g, startCounts = currentStartCountsProperty s, endCounts = e \<rparr>])"
      using assms(1) len by (auto simp add: indexed_by_generation_iff nth_append)
    with True show ?thesis
      by (simp add: recordEndCounts_previousCounts RecordEndCounts)
  next
    case False
    with assms show ?thesis by (simp add: recordEndCounts_previousCounts RecordEndCounts)
  qed
next
  case Reset
  with assms show ?thesis
    by (simp add: reset_previousCounts indexed_by_generation_iff)
qed (use assms perform_previousCounts [of ea op s] in simp_all)

lemma index_run:
  assumes "indexed_by_generation (previousCounts s)" and "obedient ea ops s"
  shows "indexed_by_generation (previousCounts (state_of (run ea ops s)))"
  using assms
proof (induction ops arbitrary: s)
  case Nil
  then show ?case by simp
next
  case (Cons op ops)
  have st: "indexed_by_generation (previousCounts (state_of (perform ea op s)))"
    using Cons.prems by (intro index_step) simp_all
  show ?case
  proof (cases "perform ea op s")
    case (Returned s')
    then show ?thesis using Cons.IH [of s'] Cons.prems st by simp
  next
    case (Threw e s')
    then show ?thesis using Cons.IH [of s'] Cons.prems st by simp
  qed
qed

lemma obeys_True: "obeys True op s"
  by (cases op) (simp_all add: recordEndCounts_returns)

lemma obedient_True: "obedient True ops s"
  by (induction ops arbitrary: s) (simp_all add: obeys_True split: outcome.splits)

lemma new_ProportionsModel_previousCounts:
  "previousCounts (state_of (new_ProportionsModel ea live clock playing)) = []"
  by (simp add: new_ProportionsModel_def andThen_def playListener_def pauseListener_def
      setValueAndRange_def displayListener_no_data Let_def)

lemma new_ProportionsModel_returns:
  "is_Returned (new_ProportionsModel ea live clock playing)"
  by (simp add: new_ProportionsModel_def andThen_def playListener_def pauseListener_def
      setValueAndRange_def notifyProportionsGeneration_def displayListener_def Let_def)


subsection \<open>The ledger's history\<close>

text \<open>
  C1 (as amended). Take any run of operations from a newly constructed ProportionsModel,
  with assertions enabled or disabled. In the state the run reaches, a record for
  generation \<open>g\<close> exists if and only if \<open>g\<close> has completed its cycle in the current run: its
  \<open>recordEndCounts\<close> call has returned since the ledger was last cleared by \<open>reset\<close>. If the
  run is obedient, the record at each index \<open>i\<close> of \<open>previousCounts\<close> has generation \<open>i\<close>.
  With assertions enabled every run is obedient.
\<close>

theorem ledger_history_invariant:
  "(\<forall>g. (\<exists>r \<in> set (previousCounts
                (state_of (run ea ops (state_of (new_ProportionsModel ea live clock playing))))).
              generation r = g)
          \<longleftrightarrow> g \<in> completed ea ops (state_of (new_ProportionsModel ea live clock playing)) {})
   \<and> (obedient ea ops (state_of (new_ProportionsModel ea live clock playing)) \<longrightarrow>
        (\<forall>i < length (previousCounts
              (state_of (run ea ops (state_of (new_ProportionsModel ea live clock playing))))).
          generation (previousCounts
              (state_of (run ea ops (state_of (new_ProportionsModel ea live clock playing)))) ! i)
            = int i))
   \<and> obedient True ops (state_of (new_ProportionsModel True live clock playing))"
proof -
  let ?s0 = "state_of (new_ProportionsModel ea live clock playing)"
  have i0: "indexed_by_generation (previousCounts ?s0)"
    and e0: "generation ` set (previousCounts ?s0) = {}"
    by (simp_all add: new_ProportionsModel_previousCounts indexed_by_generation_iff)
  have B: "completed ea ops ?s0 {} = generation ` set (previousCounts (state_of (run ea ops ?s0)))"
    using history_run [of ea ops ?s0] e0 by simp
  have A: "obedient ea ops ?s0 \<longrightarrow> indexed_by_generation (previousCounts (state_of (run ea ops ?s0)))"
    using index_run [OF i0] by blast
  have C: "(\<forall>g. (\<exists>r \<in> set (previousCounts (state_of (run ea ops ?s0))). generation r = g)
          \<longleftrightarrow> g \<in> completed ea ops ?s0 {})"
    unfolding B by blast
  from A C obedient_True [of ops "state_of (new_ProportionsModel True live clock playing)"]
  show ?thesis unfolding indexed_by_generation_iff by (intro conjI)
qed

theorem ledger_history_invariant_witness:
  "previousCounts (state_of (run False (generationCycle 0 withZero)
       (state_of (new_ProportionsModel False withZero 0 True))))
     = [\<lparr> generation = 0, startCounts = Some withZero, endCounts = withZero \<rparr>]
   \<and> obedient False (generationCycle 0 withZero)
       (state_of (new_ProportionsModel False withZero 0 True))
   \<and> generation (previousCounts (state_of (run False (generationCycle 0 withZero)
       (state_of (new_ProportionsModel False withZero 0 True)))) ! 0) = 0
   \<and> 0 \<in> completed False (generationCycle 0 withZero)
       (state_of (new_ProportionsModel False withZero 0 True)) {}"
proof -
  define s0 where "s0 = state_of (new_ProportionsModel False withZero 0 True)"
  define s where "s = state_of (run False (generationCycle 0 withZero) s0)"
  define D where "D = completed False (generationCycle 0 withZero) s0 {}"
  have pc: "previousCounts s
      = [\<lparr> generation = 0, startCounts = Some withZero, endCounts = withZero \<rparr>]"
    unfolding s_def s0_def by (simp add: model_defs)
  have ob: "obedient False (generationCycle 0 withZero) s0"
    unfolding s0_def by (simp add: model_defs)
  have len: "0 < length (previousCounts s)" unfolding pc by simp
  have ex: "\<exists>r \<in> set (previousCounts s). generation r = 0" unfolding pc by simp
  note t = ledger_history_invariant [of False "generationCycle 0 withZero" withZero 0 True,
      folded s0_def, folded s_def D_def]
  have g0: "generation (previousCounts s ! 0) = int 0" using t len ob by blast
  have d0: "0 \<in> D" using t ex by blast
  from pc ob g0 d0 show ?thesis unfolding s_def D_def s0_def by simp
qed

text \<open>
  C1 as stated fails when assertions are disabled: nothing then checks the generation
  handed to \<open>recordEndCounts\<close>, and a ledger that is asked to record the end of generation 5
  first holds, at index 0, a record of generation 5.
\<close>

theorem ledger_history_counterexample:
  "length (previousCounts (state_of (run False [RecordEndCounts 5 withZero]
       (state_of (new_ProportionsModel False withZero 0 False))))) = 1
   \<and> generation (previousCounts (state_of (run False [RecordEndCounts 5 withZero]
       (state_of (new_ProportionsModel False withZero 0 False)))) ! 0) = 5"
  by (simp add: model_defs)

subsection \<open>recordEndCounts\<close>

text \<open>
  C2 (as amended). With assertions enabled, \<open>recordEndCounts(g, endCounts)\<close> returns only
  when \<open>g\<close> is the clock's generation minus 1 and \<open>previousCounts.length\<close> is \<open>g\<close>. When it
  returns, it has appended exactly one record, which pairs \<open>g\<close> and the ledger's current
  start counts (those of the latest \<open>recordStartCounts\<close>) with \<open>endCounts\<close>, and has changed
  nothing else; a further \<open>recordEndCounts\<close> or \<open>recordStartCounts\<close> for the same \<open>g\<close> then
  fails. Every failure is an AssertionError (the spec's OutOfOrderError) and leaves the
  whole state, the history included, as it was.
\<close>

theorem recordEndCounts_contract:
  "(is_Returned (recordEndCounts True g e s) \<longrightarrow>
      g = int (clockGenerationProperty s) - 1 \<and> int (length (previousCounts s)) = g \<and>
      recordEndCounts True g e s =
        Returned (s\<lparr> previousCounts := previousCounts s @
          [\<lparr> generation = g, startCounts = currentStartCountsProperty s, endCounts = e \<rparr>] \<rparr>) \<and>
      recordEndCounts True g e' (state_of (recordEndCounts True g e s))
        = Threw AssertionError (state_of (recordEndCounts True g e s)) \<and>
      recordStartCounts True g c (state_of (recordEndCounts True g e s))
        = Threw AssertionError (state_of (recordEndCounts True g e s)))
   \<and> (\<not> is_Returned (recordEndCounts True g e s) \<longrightarrow>
        recordEndCounts True g e s = Threw AssertionError s)
   \<and> (\<not> (g = int (clockGenerationProperty s) - 1 \<and> int (length (previousCounts s)) = g) \<longrightarrow>
        \<not> is_Returned (recordEndCounts True g e s))"
  by (simp add: recordEndCounts_def recordStartCounts_def new_ProportionsCounts_def bindE_def
      js_assert_def isNonNegativeInteger_def)

theorem recordEndCounts_contract_witness:
  "is_Returned (recordEndCounts True 0 (withZero\<lparr> totalCount := 3 \<rparr>)
      (state_of (run True [RecordStartCounts 0 (withZero\<lparr> totalCount := 2 \<rparr>), SetClockGeneration 1]
         (state_of (new_ProportionsModel True withZero 0 True)))))
   \<and> previousCounts (state_of (recordEndCounts True 0 (withZero\<lparr> totalCount := 3 \<rparr>)
      (state_of (run True [RecordStartCounts 0 (withZero\<lparr> totalCount := 2 \<rparr>), SetClockGeneration 1]
         (state_of (new_ProportionsModel True withZero 0 True))))))
      = [\<lparr> generation = 0, startCounts = Some (withZero\<lparr> totalCount := 2 \<rparr>),
           endCounts = withZero\<lparr> totalCount := 3 \<rparr> \<rparr>]
   \<and> \<not> is_Returned (recordEndCounts True 0 withZero
        (state_of (recordEndCounts True 0 (withZero\<lparr> totalCount := 3 \<rparr>)
      (state_of (run True [RecordStartCounts 0 (withZero\<lparr> totalCount := 2 \<rparr>), SetClockGeneration 1]
         (state_of (new_ProportionsModel True withZero 0 True)))))))
   \<and> \<not> is_Returned (recordEndCounts True 7 withZero
        (state_of (new_ProportionsModel True withZero 0 True)))"
proof -
  define s where "s = state_of (run True [RecordStartCounts 0 (withZero\<lparr> totalCount := 2 \<rparr>), SetClockGeneration 1]
         (state_of (new_ProportionsModel True withZero 0 True)))"
  define s0 where "s0 = state_of (new_ProportionsModel True withZero 0 True)"
  define e where "e = withZero\<lparr> totalCount := 3 \<rparr>"
  have r: "is_Returned (recordEndCounts True 0 e s)"
    unfolding s_def e_def by (simp add: model_defs)
  have st: "currentStartCountsProperty s = Some (withZero\<lparr> totalCount := 2 \<rparr>)"
           "previousCounts s = []"
    unfolding s_def by (simp_all add: model_defs)
  have v: "\<not> (7 = int (clockGenerationProperty s0) - 1 \<and> int (length (previousCounts s0)) = 7)"
    unfolding s0_def by (simp add: model_defs)
  note c1 = recordEndCounts_contract [of 0 e s withZero withZero]
  have eq: "recordEndCounts True 0 e s =
      Returned (s\<lparr> previousCounts := previousCounts s @
        [\<lparr> generation = 0, startCounts = currentStartCountsProperty s, endCounts = e \<rparr>] \<rparr>)"
    using c1 r by blast
  have third: "recordEndCounts True 0 withZero (state_of (recordEndCounts True 0 e s))
      = Threw AssertionError (state_of (recordEndCounts True 0 e s))"
    using c1 r by blast
  have p1: "previousCounts (state_of (recordEndCounts True 0 e s))
      = [\<lparr> generation = 0, startCounts = Some (withZero\<lparr> totalCount := 2 \<rparr>), endCounts = e \<rparr>]"
    unfolding eq by (simp add: st)
  have p2: "\<not> is_Returned (recordEndCounts True 0 withZero (state_of (recordEndCounts True 0 e s)))"
    unfolding third by simp
  have p3: "\<not> is_Returned (recordEndCounts True 7 withZero s0)"
    using recordEndCounts_contract [of 7 withZero s0] v by blast
  from r p1 p2 p3 show ?thesis unfolding s_def s0_def e_def by blast
qed

text \<open>
  C2 as stated fails in two ways. When assertions are disabled, the call for generation 5 on
  a new ledger, whose clock is at generation 0, returns and changes the history. And with
  assertions enabled, the record of generation 0 is paired with the start counts of
  generation 1 (total 3), not with those recorded for generation 0 (total 2), when the start
  of generation 1 is recorded before the end of generation 0.
\<close>

theorem recordEndCounts_counterexample:
  "is_Returned (recordEndCounts False 5 withZero
      (state_of (new_ProportionsModel False withZero 0 False)))
   \<and> previousCounts (state_of (recordEndCounts False 5 withZero
      (state_of (new_ProportionsModel False withZero 0 False))))
     \<noteq> previousCounts (state_of (new_ProportionsModel False withZero 0 False))
   \<and> currentStartCountsProperty (state_of (run True [RecordStartCounts 0 (withZero\<lparr> totalCount := 2 \<rparr>)]
        (state_of (new_ProportionsModel True withZero 0 True))))
     = Some (withZero\<lparr> totalCount := 2 \<rparr>)
   \<and> previousCounts (state_of (run True
        [RecordStartCounts 0 (withZero\<lparr> totalCount := 2 \<rparr>), SetClockGeneration 1,
         RecordStartCounts 1 (withZero\<lparr> totalCount := 3 \<rparr>),
         RecordEndCounts 0 (withZero\<lparr> totalCount := 1 \<rparr>)]
        (state_of (new_ProportionsModel True withZero 0 True))))
     = [\<lparr> generation = 0, startCounts = Some (withZero\<lparr> totalCount := 3 \<rparr>),
          endCounts = withZero\<lparr> totalCount := 1 \<rparr> \<rparr>]"
  by (simp add: model_defs)

subsection \<open>recordStartCounts\<close>

text \<open>
  C3 (as amended). With assertions enabled, \<open>recordStartCounts(g, startCounts)\<close> fails with
  an AssertionError (the spec's OutOfOrderError), the state unchanged, unless \<open>g\<close> is the
  clock's current generation. When no assertion fails, which is always so with assertions
  disabled, the call is the assignment to \<open>currentStartCountsProperty\<close>, and the ledger's
  current start counts are \<open>startCounts\<close> afterwards, whether or not start counts had been
  recorded for that generation before: the ledger keeps a single current value, and a second
  record for the same generation replaces the first.
\<close>

theorem recordStartCounts_contract:
  "(g \<noteq> int (clockGenerationProperty s) \<longrightarrow>
      recordStartCounts True g c s = Threw AssertionError s)
   \<and> (\<not> (ea \<and> g \<noteq> int (clockGenerationProperty s)) \<longrightarrow>
        recordStartCounts ea g c s = set_currentStartCountsProperty ea (Some c) s \<and>
        currentStartCountsProperty (state_of (recordStartCounts ea g c s)) = Some c)
   \<and> (is_Returned (recordStartCounts ea g c s) \<longrightarrow>
        currentStartCountsProperty (state_of (recordStartCounts ea g c s)) = Some c)"
  by (auto simp add: recordStartCounts_def isNonNegativeInteger_def set_currentStartCounts_frame)

theorem recordStartCounts_contract_witness:
  "recordStartCounts True 3 withZero (state_of (new_ProportionsModel True withZero 0 True))
     = Threw AssertionError (state_of (new_ProportionsModel True withZero 0 True))
   \<and> is_Returned (recordStartCounts True 0 (withZero\<lparr> totalCount := 2 \<rparr>)
        (state_of (new_ProportionsModel True withZero 0 True)))
   \<and> currentStartCountsProperty (state_of (recordStartCounts True 0 (withZero\<lparr> totalCount := 2 \<rparr>)
        (state_of (new_ProportionsModel True withZero 0 True))))
      = Some (withZero\<lparr> totalCount := 2 \<rparr>)"
proof -
  define s0 where "s0 = state_of (new_ProportionsModel True withZero 0 True)"
  define a where "a = withZero\<lparr> totalCount := 2 \<rparr>"
  have h1: "3 \<noteq> int (clockGenerationProperty s0)"
    unfolding s0_def by (simp add: model_defs)
  have h2: "is_Returned (recordStartCounts True 0 a s0)"
    unfolding s0_def a_def by (simp add: model_defs)
  have p1: "recordStartCounts True 3 withZero s0 = Threw AssertionError s0"
    using recordStartCounts_contract [of 3 s0 withZero] h1 by blast
  have p2: "currentStartCountsProperty (state_of (recordStartCounts True 0 a s0)) = Some a"
    using recordStartCounts_contract [of 0 s0 a True] h2 by blast
  from p1 h2 p2 show ?thesis unfolding s0_def a_def by blast
qed

text \<open>
  C3 as stated fails in two ways. With assertions enabled, a second \<open>recordStartCounts\<close>
  for generation 0 is not rejected, and its counts replace those of the first. And when
  assertions are disabled, start counts for generation 3 are accepted while the clock is at
  generation 0.
\<close>

theorem recordStartCounts_counterexample:
  "is_Returned (recordStartCounts True 0 (withZero\<lparr> totalCount := 3 \<rparr>)
      (state_of (recordStartCounts True 0 (withZero\<lparr> totalCount := 2 \<rparr>)
         (state_of (new_ProportionsModel True withZero 0 True)))))
   \<and> currentStartCountsProperty
        (state_of (recordStartCounts True 0 (withZero\<lparr> totalCount := 3 \<rparr>)
          (state_of (recordStartCounts True 0 (withZero\<lparr> totalCount := 2 \<rparr>)
             (state_of (new_ProportionsModel True withZero 0 True))))))
      = Some (withZero\<lparr> totalCount := 3 \<rparr>)
   \<and> clockGenerationProperty (state_of (new_ProportionsModel False withZero 0 True)) = 0
   \<and> is_Returned (recordStartCounts False 3 withZero
        (state_of (new_ProportionsModel False withZero 0 True)))"
  by (simp add: model_defs)

subsection \<open>Retention of the history\<close>

lemma run_append:
  "run ea (ops @ ops') s =
     (case run ea ops s of Returned s' \<Rightarrow> run ea ops' s' | Threw e s' \<Rightarrow> Threw e s')"
  by (induction ops arbitrary: s) (simp_all split: outcome.splits)

lemma generationCycle_step:
  assumes "playing_at n s"
  shows "is_Returned (run ea (generationCycle n withZero) s)
       \<and> playing_at (Suc n) (state_of (run ea (generationCycle n withZero) s))"
  using assms
  by (auto simp add: playing_at_def model_defs split: option.splits)

lemma cycles_playing_at:
  "is_Returned (run ea (cycles n) (state_of (new_ProportionsModel ea withZero 0 True)))
   \<and> playing_at n (state_of (run ea (cycles n) (state_of (new_ProportionsModel ea withZero 0 True))))"
proof (induction n)
  case 0
  show ?case by (simp add: playing_at_def model_defs)
next
  case (Suc n)
  let ?r = "run ea (cycles n) (state_of (new_ProportionsModel ea withZero 0 True))"
  from Suc obtain s' where r: "?r = Returned s'" and p: "playing_at n s'"
    by (cases ?r) simp_all
  from generationCycle_step [OF p, of ea] r show ?case by (simp add: run_append)
qed

lemma cycles_length:
  "length (previousCounts (state_of (run ea (cycles n)
      (state_of (new_ProportionsModel ea withZero 0 True))))) = n"
  using cycles_playing_at [of ea n] by (simp add: playing_at_def)

lemma cycles_return:
  "is_Returned (run ea (cycles n) (state_of (new_ProportionsModel ea withZero 0 True)))"
  using cycles_playing_at [of ea n] by simp

text \<open>
  C4 (as amended). The history is a finite list and ProportionsModel has no retention limit:
  every operation other than \<open>reset\<close> leaves the records it found in place, as a prefix of
  the history, no operation adds more than one record, \<open>reset\<close> removes all of them or none,
  and the run of \<open>n\<close> generation cycles returns with \<open>n\<close> records in the history, for
  every \<open>n\<close>.
\<close>

theorem history_never_evicted:
  "(prefix (previousCounts s) (previousCounts (state_of (perform ea op s)))
      \<or> op = Reset \<and> previousCounts (state_of (perform ea op s)) = [])
   \<and> length (previousCounts (state_of (perform ea op s))) \<le> Suc (length (previousCounts s))
   \<and> is_Returned (run ea (cycles n) (state_of (new_ProportionsModel ea withZero 0 True)))
   \<and> length (previousCounts (state_of (run ea (cycles n)
        (state_of (new_ProportionsModel ea withZero 0 True))))) = n"
  unfolding perform_previousCounts [of ea op s]
  by (cases op) (simp_all add: cycles_length cycles_return)

text \<open>
  C4 as stated fails: no limit bounds the length of the history over all runs.
\<close>

theorem retention_limit_counterexample:
  "\<not> (\<exists>limit. \<forall>ops. length (previousCounts (state_of (run True ops
        (state_of (new_ProportionsModel True withZero 0 True))))) \<le> limit)"
proof
  assume "\<exists>limit. \<forall>ops. length (previousCounts (state_of (run True ops
        (state_of (new_ProportionsModel True withZero 0 True))))) \<le> limit"
  then obtain limit where "\<forall>ops. length (previousCounts (state_of (run True ops
        (state_of (new_ProportionsModel True withZero 0 True))))) \<le> limit" ..
  then have "length (previousCounts (state_of (run True (cycles (Suc limit))
        (state_of (new_ProportionsModel True withZero 0 True))))) \<le> limit" by blast
  then have "Suc limit \<le> limit" by (simp only: cycles_length)
  then show False by simp
qed

theorem history_never_evicted_witness:
  "length (previousCounts (state_of (run True (cycles 3)
        (state_of (new_ProportionsModel True withZero 0 True))))) = 3
   \<and> prefix (previousCounts (state_of (run True (cycles 2)
          (state_of (new_ProportionsModel True withZero 0 True)))))
        (previousCounts (state_of (perform True (SetProportionsGeneration 0)
          (state_of (run True (cycles 2) (state_of (new_ProportionsModel True withZero 0 True)))))))"
  using history_never_evicted [of "state_of (run True (cycles 2) (state_of (new_ProportionsModel True withZero 0 True)))"
      True "SetProportionsGeneration 0" 3]
  by simp

section \<open>Properties of the screen view\<close>

lemma set_simulationMode_value:
  "simulationModeProperty (set_simulationModeProperty m v) = m"
  by (simp add: set_simulationModeProperty_def simulationModeListener_def Let_def)

lemma emit_mode: "simulationModeProperty (emit e v) = COMPLETED"
  by (cases e) (simp_all add: endSimulation_def set_simulationMode_value)

lemma emit_from_other_mode:
  "simulationModeProperty v \<noteq> COMPLETED \<Longrightarrow> controlsEnabled (emit e v) = [False, False, False, False]"
  by (cases e) (simp_all add: endSimulation_def controlsEnabled_def
      set_simulationModeProperty_def simulationModeListener_def Let_def)

lemma emit_when_completed:
  "simulationModeProperty v = COMPLETED \<Longrightarrow> controlsEnabled (emit e v) = controlsEnabled v"
  by (cases e) (simp_all add: endSimulation_def controlsEnabled_def set_simulationModeProperty_def)

lemma command_completed:
  assumes "simulationModeProperty (screenView sim) = COMPLETED" and "c \<noteq> FullReset"
  shows "simulationModeProperty (screenView (command c sim)) = COMPLETED
       \<and> controlsEnabled (screenView (command c sim)) = controlsEnabled (screenView sim)
       \<and> clockTicks (command c sim) = clockTicks sim"
  using assms by (cases c) (simp_all add: emit_mode emit_when_completed)

lemma commands_completed:
  assumes "simulationModeProperty (screenView sim) = COMPLETED" and "FullReset \<notin> set cs"
  shows "simulationModeProperty (screenView (commands cs sim)) = COMPLETED
       \<and> controlsEnabled (screenView (commands cs sim)) = controlsEnabled (screenView sim)
       \<and> clockTicks (commands cs sim) = clockTicks sim"
  using assms
proof (induction cs arbitrary: sim)
  case Nil
  then show ?case by simp
next
  case (Cons c cs)
  from Cons.prems have c: "c \<noteq> FullReset" and cs: "FullReset \<notin> set cs" by auto
  from command_completed [OF Cons.prems(1) c] Cons.IH [of "command c sim", OF _ cs]
  show ?case by simp
qed

lemma fullReset_from_completed:
  assumes "simulationModeProperty (screenView sim) = COMPLETED"
  shows "simulationModeProperty (screenView (command FullReset sim)) = STAGED
       \<and> controlsEnabled (screenView (command FullReset sim)) = [True, True, True, True]"
  using assms
  by (simp add: set_simulationModeProperty_def simulationModeListener_def controlsEnabled_def
      Let_def)

text \<open>
  C5. When a terminal event (all bunnies have died, bunnies have taken over the world, the
  memory limit) fires while the simulation mode is ACTIVE, the mode becomes COMPLETED and the
  four controls (add-mutations panel, environmental-factors panel, time control, environment
  radio buttons) are disabled. Through every sequence of commands that holds no full reset,
  the mode stays COMPLETED, the four controls stay disabled and the clock is not stepped.
  The full reset that follows puts the mode back to STAGED and enables the four controls.
\<close>

theorem terminal_transition:
  assumes "simulationModeProperty (screenView sim) = ACTIVE"
  shows "simulationModeProperty (screenView (command (Terminal e) sim)) = COMPLETED
       \<and> controlsEnabled (screenView (command (Terminal e) sim)) = [False, False, False, False]
       \<and> (FullReset \<notin> set cs \<longrightarrow>
            simulationModeProperty (screenView (commands cs (command (Terminal e) sim))) = COMPLETED
          \<and> controlsEnabled (screenView (commands cs (command (Terminal e) sim)))
              = [False, False, False, False]
          \<and> clockTicks (commands cs (command (Terminal e) sim)) = clockTicks sim
          \<and> simulationModeProperty
              (screenView (command FullReset (commands cs (command (Terminal e) sim)))) = STAGED
          \<and> controlsEnabled
              (screenView (command FullReset (commands cs (command (Terminal e) sim))))
              = [True, True, True, True])"
proof -
  let ?t = "command (Terminal e) sim"
  have m: "simulationModeProperty (screenView ?t) = COMPLETED" by (simp add: emit_mode)
  have d: "controlsEnabled (screenView ?t) = [False, False, False, False]"
    using assms by (simp add: emit_from_other_mode)
  have k: "clockTicks ?t = clockTicks sim" by simp
  have "FullReset \<notin> set cs \<longrightarrow>
            simulationModeProperty (screenView (commands cs ?t)) = COMPLETED
          \<and> controlsEnabled (screenView (commands cs ?t)) = [False, False, False, False]
          \<and> clockTicks (commands cs ?t) = clockTicks sim
          \<and> simulationModeProperty (screenView (command FullReset (commands cs ?t))) = STAGED
          \<and> controlsEnabled (screenView (command FullReset (commands cs ?t)))
              = [True, True, True, True]"
  proof
    assume n: "FullReset \<notin> set cs"
    note c = commands_completed [OF m n]
    from c have "simulationModeProperty (screenView (commands cs ?t)) = COMPLETED" by simp
    from fullReset_from_completed [OF this] c d k
    show "simulationModeProperty (screenView (commands cs ?t)) = COMPLETED
          \<and> controlsEnabled (screenView (commands cs ?t)) = [False, False, False, False]
          \<and> clockTicks (commands cs ?t) = clockTicks sim
          \<and> simulationModeProperty (screenView (command FullReset (commands cs ?t))) = STAGED
          \<and> controlsEnabled (screenView (command FullReset (commands cs ?t)))
              = [True, True, True, True]"
      by simp
  qed
  with m d show ?thesis by (intro conjI)
qed

theorem terminal_transition_witness:
  "simulationModeProperty (screenView (commands [Start, Step, Step]
      \<lparr> screenView = new_NaturalSelectionScreenView STAGED, clockTicks = 0 \<rparr>)) = ACTIVE
   \<and> clockTicks (commands [Start, Step, Step]
      \<lparr> screenView = new_NaturalSelectionScreenView STAGED, clockTicks = 0 \<rparr>) = 2
   \<and> simulationModeProperty (screenView (commands [Step, Start, Terminal AllBunniesHaveDied, Step]
      (command (Terminal MemoryLimit) (commands [Start, Step, Step]
        \<lparr> screenView = new_NaturalSelectionScreenView STAGED, clockTicks = 0 \<rparr>)))) = COMPLETED
   \<and> controlsEnabled (screenView (commands [Step, Start, Terminal AllBunniesHaveDied, Step]
      (command (Terminal MemoryLimit) (commands [Start, Step, Step]
        \<lparr> screenView = new_NaturalSelectionScreenView STAGED, clockTicks = 0 \<rparr>))))
      = [False, False, False, False]
   \<and> clockTicks (commands [Step, Start, Terminal AllBunniesHaveDied, Step]
      (command (Terminal MemoryLimit) (commands [Start, Step, Step]
        \<lparr> screenView = new_NaturalSelectionScreenView STAGED, clockTicks = 0 \<rparr>))) = 2
   \<and> controlsEnabled (screenView (command FullReset
      (commands [Step, Start, Terminal AllBunniesHaveDied, Step]
      (command (Terminal MemoryLimit) (commands [Start, Step, Step]
        \<lparr> screenView = new_NaturalSelectionScreenView STAGED, clockTicks = 0 \<rparr>)))))
      = [True, True, True, True]"
proof -
  define sim where "sim = commands [Start, Step, Step]
      \<lparr> screenView = new_NaturalSelectionScreenView STAGED, clockTicks = 0 \<rparr>"
  define cs where "cs = [Step, Start, Terminal AllBunniesHaveDied, Step]"
  have h: "simulationModeProperty (screenView sim) = ACTIVE"
    unfolding sim_def
    by (simp add: new_NaturalSelectionScreenView_def simulationModeListener_def
        set_simulationModeProperty_def Let_def)
  have k: "clockTicks sim = 2"
    unfolding sim_def
    by (simp add: new_NaturalSelectionScreenView_def simulationModeListener_def
        set_simulationModeProperty_def Let_def)
  have n: "FullReset \<notin> set cs" unfolding cs_def by simp
  from terminal_transition [OF h, of MemoryLimit cs] n h k
  have "simulationModeProperty (screenView sim) = ACTIVE
   \<and> clockTicks sim = 2
   \<and> simulationModeProperty (screenView (commands cs (command (Terminal MemoryLimit) sim)))
        = COMPLETED
   \<and> controlsEnabled (screenView (commands cs (command (Terminal MemoryLimit) sim)))
        = [False, False, False, False]
   \<and> clockTicks (commands cs (command (Terminal MemoryLimit) sim)) = 2
   \<and> controlsEnabled (screenView (command FullReset
        (commands cs (command (Terminal MemoryLimit) sim)))) = [True, True, True, True]"
    by (simp only: simp_thms)
  then show ?thesis unfolding sim_def cs_def .
qed

section \<open>Playing and the displayed generation\<close>

lemma pauseListener_playing:
  "playing_shows_current (pauseListener s)"
  by (simp add: playing_shows_current_def pauseListener_def)

lemma displayListener_playing:
  "playing_shows_current (state_of (displayListener ea s)) = playing_shows_current s"
  by (simp add: playing_shows_current_def displayListener_frame)

lemma notify_playing:
  "playing_shows_current (state_of (notifyProportionsGeneration ea s))"
  by (simp add: notifyProportionsGeneration_def displayListener_playing pauseListener_playing)

lemma setValueAndRange_clock_playing:
  "playing_shows_current (state_of (setValueAndRange ea (int (clockGenerationProperty s)) r s))"
  by (simp add: setValueAndRange_def Let_def notify_playing)
     (simp add: playing_shows_current_def)

lemma playListener_playing:
  "playing_shows_current (state_of (playListener ea s))"
  by (simp add: playListener_def setValueAndRange_clock_playing)
     (simp add: playing_shows_current_def)

lemma setValueAndRange_playing:
  "playing_shows_current s \<Longrightarrow> playing_shows_current (state_of (setValueAndRange ea v r s))"
  by (simp add: setValueAndRange_def Let_def notify_playing)
     (simp add: playing_shows_current_def)

lemma set_currentStartCounts_playing:
  "playing_shows_current (state_of (set_currentStartCountsProperty ea v s)) = playing_shows_current s"
  by (simp add: playing_shows_current_def set_currentStartCounts_frame)

lemma reset_playing:
  assumes "playing_shows_current s"
  shows "playing_shows_current (state_of (reset ea s))"
proof (cases "resetValueAndRange ea (s\<lparr> valuesVisibleProperty := True \<rparr>)")
  case (Returned s1)
  from assms have "playing_shows_current (s\<lparr> valuesVisibleProperty := True \<rparr>)"
    by (simp add: playing_shows_current_def)
  from setValueAndRange_playing [OF this, of ea 0 "\<lparr> min_range = 0, max_range = 0 \<rparr>"] Returned
  have "playing_shows_current s1" by (simp add: resetValueAndRange_def)
  with Returned show ?thesis
    by (simp add: reset_def andThen_def set_currentStartCounts_None playing_shows_current_def)
next
  case (Threw e s1)
  from assms have "playing_shows_current (s\<lparr> valuesVisibleProperty := True \<rparr>)"
    by (simp add: playing_shows_current_def)
  from setValueAndRange_playing [OF this, of ea 0 "\<lparr> min_range = 0, max_range = 0 \<rparr>"] Threw
  have "playing_shows_current s1" by (simp add: resetValueAndRange_def)
  with Threw show ?thesis by (simp add: reset_Threw)
qed

lemma perform_playing:
  assumes "playing_shows_current s"
  shows "playing_shows_current (state_of (perform ea op s))"
proof (cases op)
  case (RecordStartCounts g c)
  with assms show ?thesis
    by (simp add: recordStartCounts_def set_currentStartCounts_playing)
next
  case (RecordEndCounts g e)
  with assms show ?thesis
    by (simp add: recordEndCounts_def new_ProportionsCounts_def bindE_def js_assert_def
        playing_shows_current_def)
next
  case Reset
  with assms show ?thesis by (simp add: reset_playing)
next
  case (SetClockGeneration n)
  with assms show ?thesis
    by (simp add: set_clockGenerationProperty_def playListener_playing)
next
  case (SetIsPlaying b)
  with assms show ?thesis
    by (simp add: set_isPlayingProperty_def playListener_playing)
next
  case (SetLiveBunnyCounts c)
  with assms show ?thesis
    by (simp add: set_liveBunnyCountsProperty_def updateEndCounts_def Let_def
        playing_shows_current_def)
next
  case (SetProportionsGeneration v)
  with assms show ?thesis
    by (simp add: set_proportionsGenerationProperty_def notify_playing)
qed

lemma new_playing:
  "playing_shows_current (state_of (new_ProportionsModel ea live clock playing))"
  by (simp add: playing_shows_current_def model_defs)

lemma run_playing:
  "playing_shows_current s \<Longrightarrow> playing_shows_current (state_of (run ea ops s))"
proof (induction ops arbitrary: s)
  case Nil
  then show ?case by simp
next
  case (Cons op ops)
  from perform_playing [OF Cons.prems, of ea op]
  show ?case by (cases "perform ea op s") (simp_all add: Cons.IH)
qed

text \<open>
  C9. Whenever \<open>isPlayingProperty\<close> is true, \<open>proportionsGenerationProperty\<close> is the
  clock's generation: this holds after construction, every operation keeps it, and so it
  holds after every run that returns. Under it, setting the displayed generation to a value
  other than the clock's generation leaves the sim paused, and setting \<open>isPlayingProperty\<close>
  to true leaves the displayed generation at the clock's generation.
\<close>

theorem play_display_invariant:
  "playing_shows_current (state_of (new_ProportionsModel ea live clock playing))
   \<and> (playing_shows_current s \<longrightarrow> playing_shows_current (state_of (perform ea op s)))
   \<and> (is_Returned (run ea ops (state_of (new_ProportionsModel ea live clock playing))) \<longrightarrow>
        playing_shows_current
          (state_of (run ea ops (state_of (new_ProportionsModel ea live clock playing)))))
   \<and> (playing_shows_current s \<and> v \<noteq> int (clockGenerationProperty s) \<longrightarrow>
        proportionsGenerationProperty (state_of (set_proportionsGenerationProperty ea v s)) = v \<and>
        \<not> isPlayingProperty (state_of (set_proportionsGenerationProperty ea v s)))
   \<and> (playing_shows_current s \<longrightarrow>
        isPlayingProperty (state_of (set_isPlayingProperty ea True s)) \<and>
        proportionsGenerationProperty (state_of (set_isPlayingProperty ea True s))
          = int (clockGenerationProperty s))"
proof -
  have a: "playing_shows_current s \<and> v \<noteq> int (clockGenerationProperty s) \<longrightarrow>
        proportionsGenerationProperty (state_of (set_proportionsGenerationProperty ea v s)) = v \<and>
        \<not> isPlayingProperty (state_of (set_proportionsGenerationProperty ea v s))"
    by (auto simp add: set_proportionsGenerationProperty_def notifyProportionsGeneration_def
        displayListener_frame pauseListener_def playing_shows_current_def)
  have b: "playing_shows_current s \<longrightarrow>
        isPlayingProperty (state_of (set_isPlayingProperty ea True s)) \<and>
        proportionsGenerationProperty (state_of (set_isPlayingProperty ea True s))
          = int (clockGenerationProperty s)"
    by (auto simp add: set_isPlayingProperty_def playListener_def setValueAndRange_def
        notifyProportionsGeneration_def displayListener_frame pauseListener_def
        playing_shows_current_def Let_def)
  from a b show ?thesis
    by (simp add: new_playing perform_playing run_playing)
qed

theorem play_display_invariant_witness:
  "is_Returned (run True (generationCycle 0 withZero @ generationCycle 1 withZero)
      (state_of (new_ProportionsModel True withZero 0 True)))
   \<and> playing_shows_current (state_of (run True (generationCycle 0 withZero @ generationCycle 1 withZero)
      (state_of (new_ProportionsModel True withZero 0 True))))
   \<and> isPlayingProperty (state_of (run True (generationCycle 0 withZero @ generationCycle 1 withZero)
      (state_of (new_ProportionsModel True withZero 0 True))))
   \<and> 1 \<noteq> int (clockGenerationProperty (state_of (run True (generationCycle 0 withZero @ generationCycle 1 withZero)
      (state_of (new_ProportionsModel True withZero 0 True)))))
   \<and> \<not> isPlayingProperty (state_of (set_proportionsGenerationProperty True 1
      (state_of (run True (generationCycle 0 withZero @ generationCycle 1 withZero)
      (state_of (new_ProportionsModel True withZero 0 True))))))
   \<and> proportionsGenerationProperty (state_of (set_isPlayingProperty True True
      (state_of (set_proportionsGenerationProperty True 1
      (state_of (run True (generationCycle 0 withZero @ generationCycle 1 withZero)
      (state_of (new_ProportionsModel True withZero 0 True)))))))) = 2"
proof -
  define ops where "ops = generationCycle 0 withZero @ generationCycle 1 withZero"
  define s where "s = state_of (run True ops (state_of (new_ProportionsModel True withZero 0 True)))"
  define s' where "s' = state_of (set_proportionsGenerationProperty True 1 s)"
  have r: "is_Returned (run True ops (state_of (new_ProportionsModel True withZero 0 True)))"
    unfolding ops_def by (simp add: model_defs)
  have pl: "isPlayingProperty s"
    unfolding s_def ops_def by (simp add: model_defs)
  have h2: "1 \<noteq> int (clockGenerationProperty s)" and c2: "clockGenerationProperty s = 2"
    unfolding s_def ops_def by (simp_all add: model_defs)
  note t = play_display_invariant [of True withZero 0 True s "SetProportionsGeneration 1" ops 1,
      folded s_def]
  have h1: "playing_shows_current s" using t r by blast
  have p1: "\<not> isPlayingProperty s'" unfolding s'_def using t h1 h2 by blast
  have "playing_shows_current (state_of (perform True (SetProportionsGeneration 1) s))"
    using t h1 by blast
  then have h3: "playing_shows_current s'" unfolding s'_def by simp
  have c3: "clockGenerationProperty s' = 2"
    unfolding s'_def using c2
    by (simp add: set_proportionsGenerationProperty_def notifyProportionsGeneration_def
        displayListener_frame pauseListener_frame)
  have "proportionsGenerationProperty (state_of (set_isPlayingProperty True True s'))
      = int (clockGenerationProperty s')"
    using play_display_invariant [of True withZero 0 True s' "SetProportionsGeneration 1" "[]" 1] h3
    by blast
  with c3 have p2: "proportionsGenerationProperty (state_of (set_isPlayingProperty True True s')) = 2"
    by simp
  from r h1 pl h2 p1 p2 show ?thesis unfolding s'_def s_def ops_def by blast
qed

section \<open>The displayed counts\<close>

text \<open>
  C6 fails on this run. A model is made with the clock at generation 0 and the sim paused;
  the start counts of generation 0 are recorded (total 2); the clock moves on to
  generation 1 while the sim is paused; the end counts of generation 0 are recorded (total
  3); the live counts change (total 4). Every call returns, with assertions enabled or
  disabled. The graph shows generation 0, which is now a previous generation, whose stored
  record ends with a total of 3; the displayed end counts are the live counts, with a total
  of 4. The listener that decides what to display reads the clock's generation but is not
  told when it changes.
\<close>

theorem displayed_counts_stale:
  "is_Returned (run ea
      [RecordStartCounts 0 (withZero\<lparr> totalCount := 2 \<rparr>), SetClockGeneration 1,
       RecordEndCounts 0 (withZero\<lparr> totalCount := 3 \<rparr>),
       SetLiveBunnyCounts (withZero\<lparr> totalCount := 4 \<rparr>)]
      (state_of (new_ProportionsModel ea withZero 0 False)))
   \<and> hasDataProperty (state_of (run ea
      [RecordStartCounts 0 (withZero\<lparr> totalCount := 2 \<rparr>), SetClockGeneration 1,
       RecordEndCounts 0 (withZero\<lparr> totalCount := 3 \<rparr>),
       SetLiveBunnyCounts (withZero\<lparr> totalCount := 4 \<rparr>)]
      (state_of (new_ProportionsModel ea withZero 0 False))))
   \<and> proportionsGenerationProperty (state_of (run ea
      [RecordStartCounts 0 (withZero\<lparr> totalCount := 2 \<rparr>), SetClockGeneration 1,
       RecordEndCounts 0 (withZero\<lparr> totalCount := 3 \<rparr>),
       SetLiveBunnyCounts (withZero\<lparr> totalCount := 4 \<rparr>)]
      (state_of (new_ProportionsModel ea withZero 0 False)))) = 0
   \<and> clockGenerationProperty (state_of (run ea
      [RecordStartCounts 0 (withZero\<lparr> totalCount := 2 \<rparr>), SetClockGeneration 1,
       RecordEndCounts 0 (withZero\<lparr> totalCount := 3 \<rparr>),
       SetLiveBunnyCounts (withZero\<lparr> totalCount := 4 \<rparr>)]
      (state_of (new_ProportionsModel ea withZero 0 False)))) = 1
   \<and> previousCounts (state_of (run ea
      [RecordStartCounts 0 (withZero\<lparr> totalCount := 2 \<rparr>), SetClockGeneration 1,
       RecordEndCounts 0 (withZero\<lparr> totalCount := 3 \<rparr>),
       SetLiveBunnyCounts (withZero\<lparr> totalCount := 4 \<rparr>)]
      (state_of (new_ProportionsModel ea withZero 0 False))))
      = [\<lparr> generation = 0, startCounts = Some (withZero\<lparr> totalCount := 2 \<rparr>),
           endCounts = withZero\<lparr> totalCount := 3 \<rparr> \<rparr>]
   \<and> totalCount (endCountsProperty (state_of (run ea
      [RecordStartCounts 0 (withZero\<lparr> totalCount := 2 \<rparr>), SetClockGeneration 1,
       RecordEndCounts 0 (withZero\<lparr> totalCount := 3 \<rparr>),
       SetLiveBunnyCounts (withZero\<lparr> totalCount := 4 \<rparr>)]
      (state_of (new_ProportionsModel ea withZero 0 False))))) = 4"
  by (simp add: hasDataProperty_def model_defs withZero_def)

section \<open>reset\<close>

text \<open>
  C7 fails on this run. A model is made with the clock at generation 0 and the sim
  playing; the start counts of generation 0 are recorded (total 2); the clock moves on to
  generation 1; both calls return, and the history is empty. Then \<open>reset()\<close> is called.
  It sets the displayed generation to 0, the listener that decides what to display looks
  for the record of generation 0, finds \<^verbatim>\<open>undefined\<close> and throws a TypeError, with
  assertions enabled or disabled. \<open>reset()\<close> has not yet cleared anything: the current
  start counts and the displayed start counts are still those of generation 0.
\<close>

theorem reset_throws:
  "is_Returned (run ea [RecordStartCounts 0 (withZero\<lparr> totalCount := 2 \<rparr>), SetClockGeneration 1]
      (state_of (new_ProportionsModel ea withZero 0 True)))
   \<and> previousCounts (state_of (run ea
        [RecordStartCounts 0 (withZero\<lparr> totalCount := 2 \<rparr>), SetClockGeneration 1]
        (state_of (new_ProportionsModel ea withZero 0 True)))) = []
   \<and> \<not> is_Returned (run ea
        [RecordStartCounts 0 (withZero\<lparr> totalCount := 2 \<rparr>), SetClockGeneration 1, Reset]
        (state_of (new_ProportionsModel ea withZero 0 True)))
   \<and> thrown (run ea
        [RecordStartCounts 0 (withZero\<lparr> totalCount := 2 \<rparr>), SetClockGeneration 1, Reset]
        (state_of (new_ProportionsModel ea withZero 0 True))) = TypeError
   \<and> currentStartCountsProperty (state_of (run ea
        [RecordStartCounts 0 (withZero\<lparr> totalCount := 2 \<rparr>), SetClockGeneration 1, Reset]
        (state_of (new_ProportionsModel ea withZero 0 True))))
      = Some (withZero\<lparr> totalCount := 2 \<rparr>)
   \<and> hasDataProperty (state_of (run ea
        [RecordStartCounts 0 (withZero\<lparr> totalCount := 2 \<rparr>), SetClockGeneration 1, Reset]
        (state_of (new_ProportionsModel ea withZero 0 True))))
   \<and> startCountsProperty (state_of (run ea
        [RecordStartCounts 0 (withZero\<lparr> totalCount := 2 \<rparr>), SetClockGeneration 1, Reset]
        (state_of (new_ProportionsModel ea withZero 0 True))))
      = Some (withZero\<lparr> totalCount := 2 \<rparr>)"
  by (simp add: hasDataProperty_def model_defs)

end
